theory Spec2Isabelle
  imports Complex_Main
begin

section \<open>Embedding service: data model\<close>

text \<open>
  The service consists of three Python modules: \<^verbatim>\<open>embedding_model.py\<close> (the
  \<^verbatim>\<open>EmbeddingModel\<close> singleton around a sentence-transformer), \<^verbatim>\<open>milvus_manager.py\<close>
  (the \<^verbatim>\<open>MilvusManager\<close> singleton around an \<^verbatim>\<open>AsyncMilvusClient\<close>) and
  \<^verbatim>\<open>main.py\<close> (the request handlers). The sentence-transformer and the Milvus
  client are external libraries: they are parameters of the model (records of
  functions), and nothing is assumed about them beyond their types.
\<close>

type_synonym vector = "real list"

text \<open>\<^verbatim>\<open>Dict[str, Any]\<close> values that travel through the service unchanged.\<close>

datatype json =
    JNull
  | JBool bool
  | JNum real
  | JStr string
  | JArr "json list"
  | JObj "(string \<times> json) list"

type_synonym json_dict = "(string \<times> json) list"

text \<open>
  Python exceptions. \<open>ValueError\<close> stands for any instance of \<^verbatim>\<open>ValueError\<close> (the only
  class a handler catches by name), \<open>HTTPException\<close> for FastAPI's exception with its
  status code and detail, \<open>AttributeError\<close> for a method call on \<^verbatim>\<open>None\<close>, and
  \<open>OtherException cls msg\<close> for an instance of any other subclass of
  \<^verbatim>\<open>Exception\<close>, named by its class.
\<close>

datatype exn =
    HTTPException int string
  | ValueError string
  | AttributeError string
  | OtherException string string

subsection \<open>schemas.py\<close>

record EmbedRequest =
  embed_text :: string

record EmbedBatchRequest =
  texts :: "string list"

record EmbedResponse =
  resp_embedding :: vector
  resp_dimension :: int

record EmbedBatchResponse =
  embeddings :: "vector list"
  batch_dimension :: int
  batch_count :: int

record CollectionCreateRequest =
  req_name :: string
  req_dimension :: int
  req_description :: string

record CollectionResponse =
  collection :: string
  status :: string

record InsertItem =
  item_text :: string
  item_category :: string
  item_metadata :: json_dict
  item_embedding :: "vector option"

record InsertRequest =
  items :: "InsertItem list"
  auto_embed :: bool

record InsertResponse =
  insert_count :: int

record SearchRequest =
  query :: string
  search_limit :: int
  search_output_fields :: "string list option"

record SearchByVectorRequest =
  query_vector :: vector
  vector_limit :: int
  vector_output_fields :: "string list option"

record SearchHit =
  hit_id :: int
  hit_distance :: real
  hit_text :: string
  hit_category :: string
  hit_metadata :: json_dict

record SearchResponse =
  results :: "SearchHit list"
  search_count :: int

subsection \<open>What is exchanged with the Milvus client\<close>

text \<open>One element of the \<^verbatim>\<open>data\<close> list built by the insert handler.\<close>

record row =
  row_text :: string
  row_category :: string
  row_metadata :: json_dict
  row_embedding :: vector

datatype DataType = INT64 | VARCHAR | JSON | FLOAT_VECTOR

text \<open>
  One \<^verbatim>\<open>schema.add_field\<close> call. The human-readable \<^verbatim>\<open>description\<close> arguments of
  the fields are documentation strings and are left out.
\<close>

record field_schema =
  field_name :: string
  field_datatype :: DataType
  field_is_primary :: bool
  field_auto_id :: bool
  field_max_length :: "int option"
  field_dim :: "int option"

record collection_schema =
  schema_auto_id :: bool
  schema_enable_dynamic_field :: bool
  schema_fields :: "field_schema list"

record index_params =
  index_field_name :: string
  index_type :: string
  index_metric_type :: string

text \<open>The entity of a hit: the output fields the backend returned, each possibly absent.\<close>

record entity =
  entity_text :: "string option"
  entity_category :: "string option"
  entity_metadata :: "json_dict option"

text \<open>A hit, as the client returns it and as \<^verbatim>\<open>MilvusManager.search\<close> rebuilds it.\<close>

record hit =
  raw_id :: int
  raw_distance :: real
  raw_entity :: entity

text \<open>
  The dictionary \<^verbatim>\<open>client.insert\<close> returns: the count and the primary keys the
  backend reports (\<^verbatim>\<open>ids\<close> may be missing).
\<close>

record insert_result =
  result_insert_count :: int
  result_ids :: "int list option"

text \<open>The dictionary \<^verbatim>\<open>MilvusManager.insert\<close> returns.\<close>

record manager_insert_result =
  mgr_insert_count :: int
  mgr_ids :: "int list"

subsection \<open>The external collaborators\<close>

text \<open>
  The \<^verbatim>\<open>AsyncMilvusClient\<close> over an abstract backend state \<open>'st\<close>. The two queries
  return a result or raise; the three commands also return the backend's next state
  (whatever it is, also when they raise).
\<close>

record 'st milvus_client =
  client_list_collections :: "'st \<Rightarrow> exn + string list"
  client_create_collection ::
    "'st \<Rightarrow> string \<Rightarrow> collection_schema \<Rightarrow> index_params \<Rightarrow> string \<Rightarrow> (exn + unit) \<times> 'st"
  client_insert :: "'st \<Rightarrow> string \<Rightarrow> row list \<Rightarrow> (exn + insert_result) \<times> 'st"
  client_search ::
    "'st \<Rightarrow> string \<Rightarrow> vector list \<Rightarrow> int \<Rightarrow> string list \<Rightarrow> string \<Rightarrow> exn + hit list list"
  client_drop_collection :: "'st \<Rightarrow> string \<Rightarrow> (exn + unit) \<times> 'st"

text \<open>
  The \<^verbatim>\<open>SentenceTransformer\<close>: its \<^verbatim>\<open>encode\<close> method called with one string and
  called with a list of strings (always with \<^verbatim>\<open>normalize_embeddings=True\<close>).
\<close>

record sentence_transformer =
  st_encode :: "string \<Rightarrow> vector"
  st_encode_list :: "string list \<Rightarrow> vector list"

text \<open>
  Calls that reach a collaborator, in the order they are made. The trace is ghost
  state: the handlers never read it.
\<close>

datatype call =
    EncodeCall string
  | EncodeBatchCall "string list"
  | ListCollectionsCall
  | CreateCollectionCall string collection_schema index_params string
  | InsertCall string "row list"
  | SearchCall string "vector list" int "string list" string
  | DropCollectionCall string

record 'st world =
  store :: 'st
  calls :: "call list"

definition log_call :: "call \<Rightarrow> 'st world \<Rightarrow> 'st world" where
  "log_call c w = w\<lparr>calls := calls w @ [c]\<rparr>"

section \<open>embedding_model.py\<close>

text \<open>The class attribute \<^verbatim>\<open>_model\<close>: \<^verbatim>\<open>None\<close> until the transformer is loaded.\<close>

record EmbeddingModel =
  model_attr :: "sentence_transformer option"

definition DIMENSION :: int where
  "DIMENSION = 1024"

definition MODEL_NAME :: string where
  "MODEL_NAME = ''dragonkue/BGE-m3-ko''"

definition is_loaded :: "EmbeddingModel \<Rightarrow> bool" where
  "is_loaded m = (model_attr m \<noteq> None)"

definition encode :: "EmbeddingModel \<Rightarrow> string \<Rightarrow> 'st world \<Rightarrow> (exn + vector) \<times> 'st world" where
  "encode m text w =
     (case model_attr m of
        None \<Rightarrow> (Inl (AttributeError ''NoneType object has no attribute encode''), w)
      | Some st \<Rightarrow> (Inr (st_encode st text), log_call (EncodeCall text) w))"

definition encode_batch ::
  "EmbeddingModel \<Rightarrow> string list \<Rightarrow> 'st world \<Rightarrow> (exn + vector list) \<times> 'st world" where
  "encode_batch m ts w =
     (case model_attr m of
        None \<Rightarrow> (Inl (AttributeError ''NoneType object has no attribute encode''), w)
      | Some st \<Rightarrow> (Inr (map (\<lambda>v. v) (st_encode_list st ts)), log_call (EncodeBatchCall ts) w))"

section \<open>milvus_manager.py\<close>

record 'st MilvusManager =
  client :: "'st milvus_client option"

definition none_client :: "string \<Rightarrow> exn" where
  "none_client attr = AttributeError (''NoneType object has no attribute '' @ attr)"

definition collection_schema_for :: "int \<Rightarrow> collection_schema" where
  "collection_schema_for dimension =
     \<lparr>schema_auto_id = True, schema_enable_dynamic_field = False,
      schema_fields =
        [\<lparr>field_name = ''id'', field_datatype = INT64, field_is_primary = True,
          field_auto_id = True, field_max_length = None, field_dim = None\<rparr>,
         \<lparr>field_name = ''text'', field_datatype = VARCHAR, field_is_primary = False,
          field_auto_id = False, field_max_length = Some 2048, field_dim = None\<rparr>,
         \<lparr>field_name = ''category'', field_datatype = VARCHAR, field_is_primary = False,
          field_auto_id = False, field_max_length = Some 64, field_dim = None\<rparr>,
         \<lparr>field_name = ''metadata'', field_datatype = JSON, field_is_primary = False,
          field_auto_id = False, field_max_length = None, field_dim = None\<rparr>,
         \<lparr>field_name = ''embedding'', field_datatype = FLOAT_VECTOR, field_is_primary = False,
          field_auto_id = False, field_max_length = None, field_dim = Some dimension\<rparr>]\<rparr>"

definition embedding_index :: index_params where
  "embedding_index =
     \<lparr>index_field_name = ''embedding'', index_type = ''AUTOINDEX'',
      index_metric_type = ''COSINE''\<rparr>"

definition MilvusManager_create_collection ::
  "'st MilvusManager \<Rightarrow> string \<Rightarrow> int \<Rightarrow> string \<Rightarrow> 'st world
     \<Rightarrow> (exn + CollectionResponse) \<times> 'st world" where
  "MilvusManager_create_collection self name dimension description w =
     (case client self of
        None \<Rightarrow> (Inl (none_client ''list_collections''), w)
      | Some c \<Rightarrow>
          (let w1 = log_call ListCollectionsCall w in
           case client_list_collections c (store w1) of
             Inl e \<Rightarrow> (Inl e, w1)
           | Inr collections \<Rightarrow>
               if name \<in> set collections
               then (Inr \<lparr>collection = name, status = ''already_exists''\<rparr>, w1)
               else
                 (let schema = collection_schema_for dimension;
                      index = embedding_index;
                      w2 = log_call (CreateCollectionCall name schema index description) w1
                  in case client_create_collection c (store w2) name schema index description of
                       (Inl e, s) \<Rightarrow> (Inl e, w2\<lparr>store := s\<rparr>)
                     | (Inr u, s) \<Rightarrow>
                         (Inr \<lparr>collection = name, status = ''created''\<rparr>, w2\<lparr>store := s\<rparr>))))"

definition MilvusManager_insert ::
  "'st MilvusManager \<Rightarrow> string \<Rightarrow> row list \<Rightarrow> 'st world
     \<Rightarrow> (exn + manager_insert_result) \<times> 'st world" where
  "MilvusManager_insert self collection_name data w =
     (case client self of
        None \<Rightarrow> (Inl (none_client ''insert''), w)
      | Some c \<Rightarrow>
          (let w1 = log_call (InsertCall collection_name data) w in
           case client_insert c (store w1) collection_name data of
             (Inl e, s) \<Rightarrow> (Inl e, w1\<lparr>store := s\<rparr>)
           | (Inr result, s) \<Rightarrow>
               (Inr \<lparr>mgr_insert_count = int (length data),
                     mgr_ids = (case result_ids result of None \<Rightarrow> [] | Some ids \<Rightarrow> ids)\<rparr>,
                w1\<lparr>store := s\<rparr>)))"

definition default_output_fields :: "string list" where
  "default_output_fields = [''text'', ''category'', ''metadata'']"

text \<open>\<^verbatim>\<open>if output_fields is None: output_fields = ["text", "category", "metadata"]\<close>\<close>

definition output_fields_or_default :: "string list option \<Rightarrow> string list" where
  "output_fields_or_default output_fields =
     (case output_fields of None \<Rightarrow> default_output_fields | Some fs \<Rightarrow> fs)"

definition MilvusManager_search ::
  "'st MilvusManager \<Rightarrow> string \<Rightarrow> vector list \<Rightarrow> int \<Rightarrow> string list option \<Rightarrow> 'st world
     \<Rightarrow> (exn + hit list list) \<times> 'st world" where
  "MilvusManager_search self collection_name query_vectors limit output_fields w =
     (let out_fields = output_fields_or_default output_fields in
      case client self of
        None \<Rightarrow> (Inl (none_client ''search''), w)
      | Some c \<Rightarrow>
          (let w1 = log_call
                      (SearchCall collection_name query_vectors limit out_fields ''COSINE'') w
           in case client_search c (store w1) collection_name query_vectors limit out_fields
                     ''COSINE'' of
                Inl e \<Rightarrow> (Inl e, w1)
              | Inr res \<Rightarrow>
                  (Inr (map (map (\<lambda>h. \<lparr>raw_id = raw_id h, raw_distance = raw_distance h,
                                        raw_entity = raw_entity h\<rparr>)) res),
                   w1)))"

definition MilvusManager_list_collections ::
  "'st MilvusManager \<Rightarrow> 'st world \<Rightarrow> (exn + string list) \<times> 'st world" where
  "MilvusManager_list_collections self w =
     (case client self of
        None \<Rightarrow> (Inl (none_client ''list_collections''), w)
      | Some c \<Rightarrow>
          (let w1 = log_call ListCollectionsCall w in
           (client_list_collections c (store w1), w1)))"

definition MilvusManager_drop_collection ::
  "'st MilvusManager \<Rightarrow> string \<Rightarrow> 'st world \<Rightarrow> (exn + CollectionResponse) \<times> 'st world" where
  "MilvusManager_drop_collection self name w =
     (case client self of
        None \<Rightarrow> (Inl (none_client ''drop_collection''), w)
      | Some c \<Rightarrow>
          (let w1 = log_call (DropCollectionCall name) w in
           case client_drop_collection c (store w1) name of
             (Inl e, s) \<Rightarrow> (Inl e, w1\<lparr>store := s\<rparr>)
           | (Inr u, s) \<Rightarrow> (Inr \<lparr>collection = name, status = ''dropped''\<rparr>, w1\<lparr>store := s\<rparr>)))"

section \<open>main.py\<close>

text \<open>\<^verbatim>\<open>app.state\<close>: the two singletons the lifespan hook stores.\<close>

record 'st app_state =
  model :: EmbeddingModel
  milvus :: "'st MilvusManager"

record HealthResponse =
  health_status :: string
  health_model_loaded :: bool
  health_model_name :: string
  health_model_dimension :: int
  health_milvus_connected :: bool
  health_milvus_collections :: "string list"

record ListResponse =
  resp_collections :: "string list"

text \<open>
  The \<^verbatim>\<open>detail\<close> texts of the two \<^verbatim>\<open>HTTPException\<close>s are Korean literals in the
  source; they are rendered in English here.
\<close>

definition detail_empty_texts :: string where
  "detail_empty_texts = ''texts array is empty''"

definition detail_embedding_required :: string where
  "detail_embedding_required = ''auto_embed=False requires an embedding in each item''"

definition health :: "'st app_state \<Rightarrow> 'st world \<Rightarrow> (exn + HealthResponse) \<times> 'st world" where
  "health app w =
     (let model_ok = is_loaded (model app);
          milvus_ok = (client (milvus app) \<noteq> None);
          (milvus_collections, milvus_ok', w') =
            (if milvus_ok
             then (case MilvusManager_list_collections (milvus app) w of
                     (Inr cs, w1) \<Rightarrow> (cs, milvus_ok, w1)
                   | (Inl e, w1) \<Rightarrow> ([], False, w1))
             else ([], milvus_ok, w))
      in (Inr \<lparr>health_status = (if model_ok \<and> milvus_ok' then ''ok'' else ''degraded''),
                health_model_loaded = model_ok,
                health_model_name = MODEL_NAME,
                health_model_dimension = DIMENSION,
                health_milvus_connected = milvus_ok',
                health_milvus_collections = milvus_collections\<rparr>,
          w'))"

definition embed ::
  "'st app_state \<Rightarrow> EmbedRequest \<Rightarrow> 'st world \<Rightarrow> (exn + EmbedResponse) \<times> 'st world" where
  "embed app req w =
     (case encode (model app) (embed_text req) w of
        (Inl e, w') \<Rightarrow> (Inl e, w')
      | (Inr v, w') \<Rightarrow> (Inr \<lparr>resp_embedding = v, resp_dimension = DIMENSION\<rparr>, w'))"

definition embed_batch ::
  "'st app_state \<Rightarrow> EmbedBatchRequest \<Rightarrow> 'st world \<Rightarrow> (exn + EmbedBatchResponse) \<times> 'st world" where
  "embed_batch app req w =
     (if texts req = [] then (Inl (HTTPException 400 detail_empty_texts), w)
      else
        (case encode_batch (model app) (texts req) w of
           (Inl e, w') \<Rightarrow> (Inl e, w')
         | (Inr vectors, w') \<Rightarrow>
             (Inr \<lparr>embeddings = vectors, batch_dimension = DIMENSION,
                   batch_count = int (length vectors)\<rparr>,
              w')))"

definition create_collection ::
  "'st app_state \<Rightarrow> CollectionCreateRequest \<Rightarrow> 'st world
     \<Rightarrow> (exn + CollectionResponse) \<times> 'st world" where
  "create_collection app req w =
     (case MilvusManager_create_collection (milvus app)
             (req_name req) (req_dimension req) (req_description req) w of
        (Inl e, w') \<Rightarrow> (Inl e, w')
      | (Inr result, w') \<Rightarrow>
          (Inr \<lparr>collection = collection result, status = status result\<rparr>, w'))"

definition list_collections ::
  "'st app_state \<Rightarrow> 'st world \<Rightarrow> (exn + ListResponse) \<times> 'st world" where
  "list_collections app w =
     (case MilvusManager_list_collections (milvus app) w of
        (Inl e, w') \<Rightarrow> (Inl e, w')
      | (Inr cs, w') \<Rightarrow> (Inr \<lparr>resp_collections = cs\<rparr>, w'))"

definition drop_collection ::
  "'st app_state \<Rightarrow> string \<Rightarrow> 'st world \<Rightarrow> (exn + CollectionResponse) \<times> 'st world" where
  "drop_collection app name w =
     (case MilvusManager_drop_collection (milvus app) name w of
        (Inl e, w') \<Rightarrow> (Inl e, w')
      | (Inr result, w') \<Rightarrow>
          (Inr \<lparr>collection = collection result, status = status result\<rparr>, w'))"

text \<open>The dictionary appended to \<^verbatim>\<open>data\<close> for one item.\<close>

definition make_row :: "InsertItem \<Rightarrow> vector \<Rightarrow> row" where
  "make_row item embedding =
     \<lparr>row_text = item_text item, row_category = item_category item,
      row_metadata = item_metadata item, row_embedding = embedding\<rparr>"

text \<open>
  The \<^verbatim>\<open>for item in req.items\<close> loop of the insert handler, with \<open>data\<close> the list
  built so far.
\<close>

fun insert_loop ::
  "EmbeddingModel \<Rightarrow> bool \<Rightarrow> InsertItem list \<Rightarrow> row list \<Rightarrow> 'st world
     \<Rightarrow> (exn + row list) \<times> 'st world" where
  "insert_loop m auto [] data w = (Inr data, w)"
| "insert_loop m auto (item # rest) data w =
     (if auto
      then (case encode m (item_text item) w of
              (Inl e, w') \<Rightarrow> (Inl e, w')
            | (Inr embedding, w') \<Rightarrow>
                insert_loop m auto rest (data @ [make_row item embedding]) w')
      else (case item_embedding item of
              None \<Rightarrow> (Inl (HTTPException 400 detail_embedding_required), w)
            | Some embedding \<Rightarrow>
                insert_loop m auto rest (data @ [make_row item embedding]) w))"

definition insert_endpoint ::
  "'st app_state \<Rightarrow> string \<Rightarrow> InsertRequest \<Rightarrow> 'st world
     \<Rightarrow> (exn + InsertResponse) \<times> 'st world" where
  "insert_endpoint app name req w =
     (case insert_loop (model app) (auto_embed req) (items req) [] w of
        (Inl e, w') \<Rightarrow> (Inl e, w')
      | (Inr data, w') \<Rightarrow>
          (case MilvusManager_insert (milvus app) name data w' of
             (Inl e, w'') \<Rightarrow> (Inl e, w'')
           | (Inr result, w'') \<Rightarrow>
               (Inr \<lparr>insert_count = mgr_insert_count result\<rparr>, w'')))"

text \<open>
  The block both search handlers end with: the hits of the first result list (none
  when the result is empty), each read with the defaults of \<^verbatim>\<open>entity.get\<close>.
\<close>

definition to_search_hit :: "hit \<Rightarrow> SearchHit" where
  "to_search_hit h =
     (let entity = raw_entity h in
      \<lparr>hit_id = raw_id h, hit_distance = raw_distance h,
       hit_text = (case entity_text entity of None \<Rightarrow> [] | Some t \<Rightarrow> t),
       hit_category = (case entity_category entity of None \<Rightarrow> [] | Some c \<Rightarrow> c),
       hit_metadata = (case entity_metadata entity of None \<Rightarrow> [] | Some d \<Rightarrow> d)\<rparr>)"

definition search_response :: "hit list list \<Rightarrow> SearchResponse" where
  "search_response res =
     (let hits = (case res of [] \<Rightarrow> [] | first # others \<Rightarrow> map to_search_hit first)
      in \<lparr>results = hits, search_count = int (length hits)\<rparr>)"

text \<open>
  The \<^verbatim>\<open>try\<close> block of both search handlers: \<^verbatim>\<open>except ValueError as e\<close> raises
  \<^verbatim>\<open>HTTPException(status_code=404, detail=str(e))\<close>; every other exception leaves
  the handler as it is.
\<close>

definition search_guarded ::
  "'st app_state \<Rightarrow> string \<Rightarrow> vector \<Rightarrow> int \<Rightarrow> string list option \<Rightarrow> 'st world
     \<Rightarrow> (exn + SearchResponse) \<times> 'st world" where
  "search_guarded app name v limit output_fields w =
     (case MilvusManager_search (milvus app) name [v] limit output_fields w of
        (Inl (ValueError msg), w') \<Rightarrow> (Inl (HTTPException 404 msg), w')
      | (Inl e, w') \<Rightarrow> (Inl e, w')
      | (Inr res, w') \<Rightarrow> (Inr (search_response res), w'))"

definition search ::
  "'st app_state \<Rightarrow> string \<Rightarrow> SearchRequest \<Rightarrow> 'st world
     \<Rightarrow> (exn + SearchResponse) \<times> 'st world" where
  "search app name req w =
     (case encode (model app) (query req) w of
        (Inl e, w') \<Rightarrow> (Inl e, w')
      | (Inr v, w') \<Rightarrow>
          search_guarded app name v (search_limit req) (search_output_fields req) w')"

definition search_by_vector ::
  "'st app_state \<Rightarrow> string \<Rightarrow> SearchByVectorRequest \<Rightarrow> 'st world
     \<Rightarrow> (exn + SearchResponse) \<times> 'st world" where
  "search_by_vector app name req w =
     search_guarded app name (query_vector req) (vector_limit req) (vector_output_fields req) w"

section \<open>Notions of the specification\<close>

text \<open>
  The status code a handler's outcome carries when it ends in an \<^verbatim>\<open>HTTPException\<close>
  (\<open>None\<close> when it returns, and when any other exception leaves it).
\<close>

definition raised_status :: "exn + 'a \<Rightarrow> int option" where
  "raised_status r = (case r of Inl (HTTPException code detail) \<Rightarrow> Some code | _ \<Rightarrow> None)"


text \<open>
  The storage backend is reachable: the manager holds a client and that client's
  \<^verbatim>\<open>list_collections\<close> answers.
\<close>

definition storage_reachable :: "'st app_state \<Rightarrow> 'st world \<Rightarrow> bool" where
  "storage_reachable app w =
     (case client (milvus app) of
        None \<Rightarrow> False
      | Some c \<Rightarrow> (case client_list_collections c (store w) of Inl e \<Rightarrow> False | Inr cs \<Rightarrow> True))"

section \<open>Test doubles\<close>

text \<open>
  An in-memory stand-in for the Milvus client, used only to run the handlers on
  concrete inputs: a backend state is a list of collections, each a name, the
  dimension of its embedding field and its rows. \<open>missing\<close> is the exception the
  stand-in raises when a collection does not exist.
\<close>

type_synonym memory_store = "(string \<times> int \<times> row list) list"

definition schema_dimension :: "collection_schema \<Rightarrow> int" where
  "schema_dimension schema =
     (case List.map_filter field_dim (schema_fields schema) of [] \<Rightarrow> 0 | d # ds \<Rightarrow> d)"

definition stored_hit :: "string list \<Rightarrow> nat \<times> row \<Rightarrow> hit" where
  "stored_hit fs p =
     \<lparr>raw_id = int (fst p), raw_distance = 0,
      raw_entity =
        \<lparr>entity_text = (if ''text'' \<in> set fs then Some (row_text (snd p)) else None),
         entity_category =
           (if ''category'' \<in> set fs then Some (row_category (snd p)) else None),
         entity_metadata =
           (if ''metadata'' \<in> set fs then Some (row_metadata (snd p)) else None)\<rparr>\<rparr>"

definition memory_client :: "exn \<Rightarrow> memory_store milvus_client" where
  "memory_client missing =
     \<lparr>client_list_collections = (\<lambda>s. Inr (map fst s)),
      client_create_collection = (\<lambda>s name schema index description.
        if name \<in> set (map fst s)
        then (Inl (OtherException ''MilvusException'' ''collection already exists''), s)
        else (Inr (), s @ [(name, schema_dimension schema, [])])),
      client_insert = (\<lambda>s name data.
        case map_of s name of
          None \<Rightarrow> (Inl missing, s)
        | Some (d, rows) \<Rightarrow>
            if list_all (\<lambda>r. int (length (row_embedding r)) = d) data
            then (Inr \<lparr>result_insert_count = int (length data),
                       result_ids = Some (map int [length rows ..< length rows + length data])\<rparr>,
                  map (\<lambda>(n, c). if n = name then (n, d, rows @ data) else (n, c)) s)
            else (Inl (OtherException ''MilvusException'' ''vector dimension mismatch''), s)),
      client_search = (\<lambda>s name vectors limit fs metric.
        case map_of s name of
          None \<Rightarrow> Inl missing
        | Some (d, rows) \<Rightarrow>
            if list_all (\<lambda>v. int (length v) = d) vectors
            then Inr (map (\<lambda>v. take (nat limit) (map (stored_hit fs) (enumerate 0 rows)))
                       vectors)
            else Inl (OtherException ''MilvusException'' ''vector dimension mismatch'')),
      client_drop_collection = (\<lambda>s name.
        case map_of s name of
          None \<Rightarrow> (Inl missing, s)
        | Some c \<Rightarrow> (Inr (), filter (\<lambda>p. fst p \<noteq> name) s))\<rparr>"

text \<open>A stand-in that acknowledges every insert and persists nothing.\<close>

definition forgetful_client :: "memory_store milvus_client" where
  "forgetful_client =
     (memory_client (ValueError ''collection not found''))
       \<lparr>client_insert :=
          (\<lambda>s name data. (Inr \<lparr>result_insert_count = 0, result_ids = Some []\<rparr>, s))\<rparr>"

text \<open>A stand-in whose backend cannot be reached: listing the collections fails.\<close>

definition unreachable_client :: "memory_store milvus_client" where
  "unreachable_client =
     (memory_client (ValueError ''collection not found''))
       \<lparr>client_list_collections :=
          (\<lambda>s. Inl (OtherException ''MilvusException'' ''connection refused''))\<rparr>"

definition not_found_error :: exn where
  "not_found_error = OtherException ''MilvusException'' ''collection not found''"

definition stub_transformer :: sentence_transformer where
  "stub_transformer =
     \<lparr>st_encode = (\<lambda>t. [real (length t), 1]),
      st_encode_list = map (\<lambda>t. [real (length t), 1])\<rparr>"

definition test_app :: "memory_store milvus_client \<Rightarrow> memory_store app_state" where
  "test_app c =
     \<lparr>model = \<lparr>model_attr = Some stub_transformer\<rparr>, milvus = \<lparr>client = Some c\<rparr>\<rparr>"

text \<open>An application whose model attribute is still \<^verbatim>\<open>None\<close>.\<close>

definition unloaded_app :: "memory_store milvus_client \<Rightarrow> memory_store app_state" where
  "unloaded_app c = \<lparr>model = \<lparr>model_attr = None\<rparr>, milvus = \<lparr>client = Some c\<rparr>\<rparr>"

definition empty_world :: "memory_store world" where
  "empty_world = \<lparr>store = [], calls = []\<rparr>"

text \<open>A backend that holds one empty collection \<open>c\<close> of dimension 2.\<close>

definition world_c :: "memory_store world" where
  "world_c = \<lparr>store = [(''c'', 2, [])], calls = []\<rparr>"

definition item_a :: InsertItem where
  "item_a =
     \<lparr>item_text = ''a'', item_category = [], item_metadata = [], item_embedding = None\<rparr>"

definition item_b :: InsertItem where
  "item_b =
     \<lparr>item_text = ''bb'', item_category = ''x'', item_metadata = [],
      item_embedding = Some [0, 1]\<rparr>"

text \<open>Search requests, the last with a vector of three components.\<close>

definition search_a :: SearchRequest where
  "search_a = \<lparr>query = ''a'', search_limit = 5, search_output_fields = None\<rparr>"

definition search_v2 :: SearchByVectorRequest where
  "search_v2 = \<lparr>query_vector = [1, 0], vector_limit = 5, vector_output_fields = None\<rparr>"


section \<open>Insertion\<close>

text \<open>
  With \<^verbatim>\<open>auto_embed\<close> set and the model loaded, the loop encodes every item's text,
  in order, and never fails.
\<close>

lemma insert_loop_auto:
  "model_attr m = Some st \<Longrightarrow>
   insert_loop m True its data w =
     (Inr (data @ map (\<lambda>item. make_row item (st_encode st (item_text item))) its),
      w\<lparr>calls := calls w @ map (\<lambda>item. EncodeCall (item_text item)) its\<rparr>)"
  by (induction its arbitrary: data w) (simp_all add: encode_def log_call_def)

lemma insert_loop_missing:
  "\<exists>item \<in> set its. item_embedding item = None \<Longrightarrow>
   insert_loop m False its data w = (Inl (HTTPException 400 detail_embedding_required), w)"
  by (induction its arbitrary: data) (auto split: option.splits)

lemma insert_loop_length:
  "insert_loop m auto its data w = (Inr data', w') \<Longrightarrow>
   length data' = length data + length its"
proof (induction its arbitrary: data w)
  case Nil
  then show ?case by simp
next
  case (Cons item rest)
  show ?case
  proof (cases auto)
    case True
    then obtain v w1 where "encode m (item_text item) w = (Inr v, w1)"
      and "insert_loop m auto rest (data @ [make_row item v]) w1 = (Inr data', w')"
      using Cons.prems by (auto split: prod.splits sum.splits)
    then show ?thesis using Cons.IH by fastforce
  next
    case False
    then obtain v where "item_embedding item = Some v"
      and "insert_loop m auto rest (data @ [make_row item v]) w = (Inr data', w')"
      using Cons.prems by (auto split: option.splits)
    then show ?thesis using Cons.IH by fastforce
  qed
qed

text \<open>
  Claim C1. For an insert request with \<^verbatim>\<open>auto_embed\<close> true (the model loaded, the
  client connected), the handler builds one row per item in input order, each with
  the embedding \<^verbatim>\<open>encode(item.text)\<close> whatever embedding the client supplied, makes
  exactly one \<^verbatim>\<open>client.insert\<close> call, carrying the whole batch, after the encode
  calls, and answers the number of items when the backend accepts the batch (the
  backend's exception leaves the handler otherwise).
\<close>

theorem insert_auto_embed_one_batch:
  assumes "auto_embed req"
    and "model_attr (model app) = Some st"
    and "client (milvus app) = Some c"
  shows "insert_endpoint app name req w =
     (let data = map (\<lambda>item. \<lparr>row_text = item_text item, row_category = item_category item,
                               row_metadata = item_metadata item,
                               row_embedding = st_encode st (item_text item)\<rparr>) (items req);
          issued = calls w @ map (\<lambda>item. EncodeCall (item_text item)) (items req)
                     @ [InsertCall name data]
      in case client_insert c (store w) name data of
           (Inl e, s) \<Rightarrow> (Inl e, \<lparr>store = s, calls = issued\<rparr>)
         | (Inr reply, s) \<Rightarrow>
             (Inr \<lparr>insert_count = int (length (items req))\<rparr>, \<lparr>store = s, calls = issued\<rparr>))"
  using assms
  by (simp add: insert_endpoint_def insert_loop_auto MilvusManager_insert_def log_call_def
      make_row_def Let_def split: prod.splits sum.splits)

theorem insert_auto_embed_one_batch_witness:
  "auto_embed \<lparr>items = [item_a, item_b], auto_embed = True\<rparr>
   \<and> model_attr (model (test_app (memory_client not_found_error))) = Some stub_transformer
   \<and> client (milvus (test_app (memory_client not_found_error)))
       = Some (memory_client not_found_error)
   \<and> insert_endpoint (test_app (memory_client not_found_error)) ''c''
       \<lparr>items = [item_a, item_b], auto_embed = True\<rparr> world_c =
     (Inr \<lparr>insert_count = 2\<rparr>,
      \<lparr>store = [(''c'', 2,
          [\<lparr>row_text = ''a'', row_category = [], row_metadata = [], row_embedding = [1, 1]\<rparr>,
           \<lparr>row_text = ''bb'', row_category = ''x'', row_metadata = [],
            row_embedding = [2, 1]\<rparr>])],
       calls = [EncodeCall ''a'', EncodeCall ''bb'',
          InsertCall ''c''
            [\<lparr>row_text = ''a'', row_category = [], row_metadata = [], row_embedding = [1, 1]\<rparr>,
             \<lparr>row_text = ''bb'', row_category = ''x'', row_metadata = [],
              row_embedding = [2, 1]\<rparr>]]\<rparr>)"
  using insert_auto_embed_one_batch
    [of "\<lparr>items = [item_a, item_b], auto_embed = True\<rparr>"
        "test_app (memory_client not_found_error)" stub_transformer
        "memory_client not_found_error" "''c''" world_c]
  by (simp add: test_app_def memory_client_def stub_transformer_def world_c_def item_a_def
      item_b_def Let_def)

text \<open>
  Claim C2. An insert request with \<^verbatim>\<open>auto_embed\<close> false that has an item without
  an embedding ends in \<^verbatim>\<open>HTTPException(400)\<close>, and the world is as before: no call
  reached the model or the storage client, and the backend state is untouched.
\<close>

theorem insert_missing_embedding_rejected:
  assumes "\<not> auto_embed req"
    and "\<exists>item \<in> set (items req). item_embedding item = None"
  shows "insert_endpoint app name req w =
           (Inl (HTTPException 400 detail_embedding_required), w)"
  using assms by (simp add: insert_endpoint_def insert_loop_missing)

theorem insert_missing_embedding_rejected_witness:
  "\<not> auto_embed \<lparr>items = [item_b, item_a], auto_embed = False\<rparr>
   \<and> item_a \<in> set (items \<lparr>items = [item_b, item_a], auto_embed = False\<rparr>)
   \<and> item_embedding item_a = None
   \<and> insert_endpoint (test_app (memory_client not_found_error)) ''c''
        \<lparr>items = [item_b, item_a], auto_embed = False\<rparr> world_c
      = (Inl (HTTPException 400 detail_embedding_required), world_c)"
proof -
  have h1: "\<not> auto_embed \<lparr>items = [item_b, item_a], auto_embed = False\<rparr>"
    by simp
  have h2: "item_a \<in> set (items \<lparr>items = [item_b, item_a], auto_embed = False\<rparr>)"
    by simp
  have h3: "item_embedding item_a = None"
    by (simp add: item_a_def)
  from h2 h3 have h4: "\<exists>item \<in> set (items \<lparr>items = [item_b, item_a], auto_embed = False\<rparr>).
      item_embedding item = None"
    by blast
  show ?thesis
    using insert_missing_embedding_rejected [OF h1 h4] h1 h2 h3 by simp
qed

text \<open>
  Claim C10. Whenever the insert handler returns, the \<^verbatim>\<open>insert_count\<close> it answers
  is the number of items of the request, for every storage client: the count is the
  length of the batch, and nothing the backend reports or persists enters it.
\<close>

theorem insert_count_is_input_length:
  assumes "insert_endpoint app name req w = (Inr resp, w')"
  shows "insert_count resp = int (length (items req))"
proof -
  from assms obtain data w1 result where
    loop: "insert_loop (model app) (auto_embed req) (items req) [] w = (Inr data, w1)"
    and mgr: "MilvusManager_insert (milvus app) name data w1 = (Inr result, w')"
    and resp: "resp = \<lparr>insert_count = mgr_insert_count result\<rparr>"
    by (auto simp: insert_endpoint_def split: prod.splits sum.splits)
  from mgr have "mgr_insert_count result = int (length data)"
    by (auto simp: MilvusManager_insert_def Let_def split: option.splits prod.splits sum.splits)
  moreover from loop have "length data = length (items req)"
    using insert_loop_length by fastforce
  ultimately show ?thesis using resp by simp
qed

theorem insert_count_is_input_length_witness:
  "insert_endpoint (test_app forgetful_client) ''c''
     \<lparr>items = [item_a, item_b], auto_embed = True\<rparr> world_c
   = (Inr \<lparr>insert_count = 2\<rparr>,
      \<lparr>store = [(''c'', 2, [])],
       calls = [EncodeCall ''a'', EncodeCall ''bb'',
         InsertCall ''c''
           [\<lparr>row_text = ''a'', row_category = [], row_metadata = [], row_embedding = [1, 1]\<rparr>,
            \<lparr>row_text = ''bb'', row_category = ''x'', row_metadata = [],
             row_embedding = [2, 1]\<rparr>]]\<rparr>)
   \<and> insert_count \<lparr>insert_count = 2\<rparr>
       = int (length (items \<lparr>items = [item_a, item_b], auto_embed = True\<rparr>))"
proof -
  have run: "insert_endpoint (test_app forgetful_client) ''c''
     \<lparr>items = [item_a, item_b], auto_embed = True\<rparr> world_c
   = (Inr \<lparr>insert_count = 2\<rparr>,
      \<lparr>store = [(''c'', 2, [])],
       calls = [EncodeCall ''a'', EncodeCall ''bb'',
         InsertCall ''c''
           [\<lparr>row_text = ''a'', row_category = [], row_metadata = [], row_embedding = [1, 1]\<rparr>,
            \<lparr>row_text = ''bb'', row_category = ''x'', row_metadata = [],
             row_embedding = [2, 1]\<rparr>]]\<rparr>)"
    by (simp add: insert_endpoint_def encode_def log_call_def make_row_def
        MilvusManager_insert_def test_app_def forgetful_client_def memory_client_def
        stub_transformer_def world_c_def item_a_def item_b_def)
  show ?thesis
    using insert_count_is_input_length [OF run] run by simp
qed

section \<open>Collection lifecycle\<close>

lemma count_list_distinct:
  "distinct xs \<Longrightarrow> x \<in> set xs \<Longrightarrow> count_list xs x = 1"
  by (induction xs) auto

lemma create_collection_existing:
  assumes "client (milvus app) = Some c"
    and "client_list_collections c (store w) = Inr names"
    and "req_name req \<in> set names"
  shows "create_collection app req w =
           (Inr \<lparr>collection = req_name req, status = ''already_exists''\<rparr>,
            w\<lparr>calls := calls w @ [ListCollectionsCall]\<rparr>)"
  using assms
  by (simp add: create_collection_def MilvusManager_create_collection_def log_call_def)

lemma create_collection_new:
  assumes "client (milvus app) = Some c"
    and "client_list_collections c (store w) = Inr names"
    and "req_name req \<notin> set names"
    and "client_create_collection c (store w) (req_name req)
           (collection_schema_for (req_dimension req)) embedding_index (req_description req)
         = (Inr u, s)"
  shows "create_collection app req w =
           (Inr \<lparr>collection = req_name req, status = ''created''\<rparr>,
            \<lparr>store = s,
             calls = calls w @ [ListCollectionsCall,
               CreateCollectionCall (req_name req) (collection_schema_for (req_dimension req))
                 embedding_index (req_description req)]\<rparr>)"
  using assms
  by (simp add: create_collection_def MilvusManager_create_collection_def log_call_def)

lemma list_collections_connected:
  assumes "client (milvus app) = Some c"
  shows "list_collections app w =
           ((case client_list_collections c (store w) of
               Inl e \<Rightarrow> Inl e | Inr cs \<Rightarrow> Inr \<lparr>resp_collections = cs\<rparr>),
            w\<lparr>calls := calls w @ [ListCollectionsCall]\<rparr>)"
  using assms
  by (simp add: list_collections_def MilvusManager_list_collections_def log_call_def
      split: sum.splits)

text \<open>
  Claim C3. When the backend does not list the name, accepts the creation and
  afterwards lists the name once, the first create call answers \<open>created\<close>; a second
  create call with the same name (whatever its dimension and description) answers
  \<open>already_exists\<close> after a single \<^verbatim>\<open>list_collections\<close> call, so the request is
  compared with nothing and the backend state stays as the first call left it; and
  the list handler then reports the name exactly once.
\<close>

theorem create_collection_twice:
  assumes conn: "client (milvus app) = Some c"
    and fresh: "client_list_collections c (store w) = Inr names" "req_name req \<notin> set names"
    and accepted: "client_create_collection c (store w) (req_name req)
           (collection_schema_for (req_dimension req)) embedding_index (req_description req)
         = (Inr (), s1)"
    and listed: "client_list_collections c s1 = Inr names1" "distinct names1"
      "req_name req \<in> set names1"
    and same: "req_name req2 = req_name req"
  shows "(let w1 = \<lparr>store = s1,
                    calls = calls w @ [ListCollectionsCall,
                      CreateCollectionCall (req_name req)
                        (collection_schema_for (req_dimension req)) embedding_index
                        (req_description req)]\<rparr>;
              w2 = \<lparr>store = s1, calls = calls w1 @ [ListCollectionsCall]\<rparr>;
              w3 = \<lparr>store = s1, calls = calls w2 @ [ListCollectionsCall]\<rparr>
          in create_collection app req w =
               (Inr \<lparr>collection = req_name req, status = ''created''\<rparr>, w1)
           \<and> create_collection app req2 w1 =
               (Inr \<lparr>collection = req_name req, status = ''already_exists''\<rparr>, w2)
           \<and> list_collections app w2 = (Inr \<lparr>resp_collections = names1\<rparr>, w3)
           \<and> count_list names1 (req_name req) = 1)"
proof -
  let ?w1 = "\<lparr>store = s1,
               calls = calls w @ [ListCollectionsCall,
                 CreateCollectionCall (req_name req)
                   (collection_schema_for (req_dimension req)) embedding_index
                   (req_description req)]\<rparr>"
  let ?w2 = "\<lparr>store = s1, calls = calls ?w1 @ [ListCollectionsCall]\<rparr>"
  have first: "create_collection app req w =
      (Inr \<lparr>collection = req_name req, status = ''created''\<rparr>, ?w1)"
    using create_collection_new [OF conn fresh accepted] .
  have "client_list_collections c (store ?w1) = Inr names1"
    using listed(1) by simp
  moreover have "req_name req2 \<in> set names1"
    using listed(3) same by simp
  ultimately have second: "create_collection app req2 ?w1 =
      (Inr \<lparr>collection = req_name req, status = ''already_exists''\<rparr>, ?w2)"
    using create_collection_existing [OF conn, of ?w1 names1 req2] same by simp
  have third: "list_collections app ?w2 =
      (Inr \<lparr>resp_collections = names1\<rparr>,
       \<lparr>store = s1, calls = calls ?w2 @ [ListCollectionsCall]\<rparr>)"
    using list_collections_connected [OF conn, of ?w2] listed(1) by simp
  have "count_list names1 (req_name req) = 1"
    using listed(2,3) by (rule count_list_distinct)
  with first second third show ?thesis
    by (simp add: Let_def)
qed

theorem create_collection_twice_witness:
  "client (milvus (test_app (memory_client not_found_error)))
     = Some (memory_client not_found_error)
   \<and> client_list_collections (memory_client not_found_error) (store empty_world) = Inr []
   \<and> ''c'' \<notin> set ([] :: string list)
   \<and> client_create_collection (memory_client not_found_error) (store empty_world) ''c''
        (collection_schema_for 2) embedding_index [] = (Inr (), [(''c'', 2, [])])
   \<and> client_list_collections (memory_client not_found_error) [(''c'', 2, [])] = Inr [''c'']
   \<and> distinct [''c''] \<and> ''c'' \<in> set [''c'']
   \<and> create_collection (test_app (memory_client not_found_error))
        \<lparr>req_name = ''c'', req_dimension = 2, req_description = []\<rparr> empty_world
      = (Inr \<lparr>collection = ''c'', status = ''created''\<rparr>,
         \<lparr>store = [(''c'', 2, [])],
          calls = [ListCollectionsCall,
            CreateCollectionCall ''c'' (collection_schema_for 2) embedding_index []]\<rparr>)
   \<and> create_collection (test_app (memory_client not_found_error))
        \<lparr>req_name = ''c'', req_dimension = 768, req_description = ''again''\<rparr>
        \<lparr>store = [(''c'', 2, [])],
         calls = [ListCollectionsCall,
           CreateCollectionCall ''c'' (collection_schema_for 2) embedding_index []]\<rparr>
      = (Inr \<lparr>collection = ''c'', status = ''already_exists''\<rparr>,
         \<lparr>store = [(''c'', 2, [])],
          calls = [ListCollectionsCall,
            CreateCollectionCall ''c'' (collection_schema_for 2) embedding_index [],
            ListCollectionsCall]\<rparr>)
   \<and> count_list [''c''] ''c'' = 1"
proof -
  have h1: "client (milvus (test_app (memory_client not_found_error)))
     = Some (memory_client not_found_error)"
    by (simp add: test_app_def)
  have h2: "client_list_collections (memory_client not_found_error) (store empty_world) = Inr []"
    by (simp add: memory_client_def empty_world_def)
  have h3: "req_name \<lparr>req_name = ''c'', req_dimension = 2, req_description = []\<rparr>
      \<notin> set ([] :: string list)"
    by simp
  have h4: "client_create_collection (memory_client not_found_error) (store empty_world)
      (req_name \<lparr>req_name = ''c'', req_dimension = 2, req_description = []\<rparr>)
      (collection_schema_for
         (req_dimension \<lparr>req_name = ''c'', req_dimension = 2, req_description = []\<rparr>))
      embedding_index
      (req_description \<lparr>req_name = ''c'', req_dimension = 2, req_description = []\<rparr>)
      = (Inr (), [(''c'', 2, [])])"
    by (simp add: memory_client_def empty_world_def schema_dimension_def
        collection_schema_for_def List.map_filter_def)
  have h5: "client_list_collections (memory_client not_found_error) [(''c'', 2, [])]
      = Inr [''c'']"
    by (simp add: memory_client_def)
  have h6: "distinct [''c'']" by simp
  have h7: "req_name \<lparr>req_name = ''c'', req_dimension = 2, req_description = []\<rparr>
      \<in> set [''c'']" by simp
  have h8: "req_name \<lparr>req_name = ''c'', req_dimension = 768, req_description = ''again''\<rparr>
      = req_name \<lparr>req_name = ''c'', req_dimension = 2, req_description = []\<rparr>" by simp
  show ?thesis
    using create_collection_twice [OF h1 h2 h3 h4 h5 h6 h7 h8] h1 h2 h4 h5
    by (simp add: Let_def empty_world_def)
qed

text \<open>
  Claim C8, as stated, fails: no handler or manager code on the drop path looks at
  the exception the client raises. Dropping a name that was never created, on a
  backend that signals it with the very exception the search handlers turn into 404,
  ends in that exception and not in an \<^verbatim>\<open>HTTPException(404)\<close>.
\<close>

theorem drop_missing_collection_counterexample:
  "''missing'' \<notin> set (map fst (store world_c))
   \<and> drop_collection (test_app (memory_client (ValueError ''collection not found'')))
        ''missing'' world_c
      = (Inl (ValueError ''collection not found''),
         \<lparr>store = [(''c'', 2, [])], calls = [DropCollectionCall ''missing'']\<rparr>)
   \<and> raised_status
        (fst (drop_collection (test_app (memory_client (ValueError ''collection not found'')))
           ''missing'' world_c)) \<noteq> Some 404"
  by (simp add: drop_collection_def MilvusManager_drop_collection_def log_call_def
      test_app_def memory_client_def world_c_def raised_status_def)

text \<open>
  Claim C8, amended. The drop handler passes the backend's outcome through: when
  \<^verbatim>\<open>client.drop_collection\<close> returns, the answer is the name with status
  \<open>dropped\<close> (for any name the backend accepts), and when it raises, the same
  exception leaves the handler. The list handler afterwards reports the backend's
  list for the state the drop left, so the name is gone once the backend removed it.
\<close>

theorem drop_collection_passes_outcome_through:
  assumes "client (milvus app) = Some c"
  shows "(let issued = calls w @ [DropCollectionCall name] in
          drop_collection app name w =
            (case client_drop_collection c (store w) name of
               (Inl e, s) \<Rightarrow> (Inl e, \<lparr>store = s, calls = issued\<rparr>)
             | (Inr u, s) \<Rightarrow>
                 (Inr \<lparr>collection = name, status = ''dropped''\<rparr>,
                  \<lparr>store = s, calls = issued\<rparr>)))
       \<and> fst (list_collections app (snd (drop_collection app name w))) =
           (case client_list_collections c (snd (client_drop_collection c (store w) name)) of
              Inl e \<Rightarrow> Inl e
            | Inr cs \<Rightarrow> Inr \<lparr>resp_collections = cs\<rparr>)"
proof -
  have run: "drop_collection app name w =
            (case client_drop_collection c (store w) name of
               (Inl e, s) \<Rightarrow> (Inl e, \<lparr>store = s, calls = calls w @ [DropCollectionCall name]\<rparr>)
             | (Inr u, s) \<Rightarrow>
                 (Inr \<lparr>collection = name, status = ''dropped''\<rparr>,
                  \<lparr>store = s, calls = calls w @ [DropCollectionCall name]\<rparr>))"
    using assms
    by (simp add: drop_collection_def MilvusManager_drop_collection_def log_call_def
        split: prod.splits sum.splits)
  then have "store (snd (drop_collection app name w))
      = snd (client_drop_collection c (store w) name)"
    by (simp split: prod.splits sum.splits)
  then have "fst (list_collections app (snd (drop_collection app name w))) =
           (case client_list_collections c (snd (client_drop_collection c (store w) name)) of
              Inl e \<Rightarrow> Inl e
            | Inr cs \<Rightarrow> Inr \<lparr>resp_collections = cs\<rparr>)"
    using assms
    by (simp add: list_collections_def MilvusManager_list_collections_def log_call_def
        split: sum.splits)
  with run show ?thesis by (simp add: Let_def)
qed

theorem drop_collection_passes_outcome_through_witness:
  "client (milvus (test_app (memory_client not_found_error)))
     = Some (memory_client not_found_error)
   \<and> drop_collection (test_app (memory_client not_found_error)) ''c'' world_c
      = (Inr \<lparr>collection = ''c'', status = ''dropped''\<rparr>,
         \<lparr>store = [], calls = [DropCollectionCall ''c'']\<rparr>)
   \<and> fst (list_collections (test_app (memory_client not_found_error))
        (snd (drop_collection (test_app (memory_client not_found_error)) ''c'' world_c)))
      = Inr \<lparr>resp_collections = []\<rparr>"
proof -
  let ?c = "memory_client not_found_error"
  have h: "client (milvus (test_app ?c)) = Some ?c"
    by (simp add: test_app_def)
  have dropped: "client_drop_collection ?c (store world_c) ''c'' = (Inr (), [])"
    by (simp add: memory_client_def world_c_def)
  have listed: "client_list_collections ?c [] = Inr []"
    by (simp add: memory_client_def)
  have no_calls: "calls world_c = []"
    by (simp add: world_c_def)
  note inst = drop_collection_passes_outcome_through [OF h, of world_c "''c''"]
  from inst [THEN conjunct1] have "drop_collection (test_app ?c) ''c'' world_c
      = (Inr \<lparr>collection = ''c'', status = ''dropped''\<rparr>,
         \<lparr>store = [], calls = [DropCollectionCall ''c'']\<rparr>)"
    by (simp add: dropped no_calls Let_def)
  moreover from inst [THEN conjunct2] have "fst (list_collections (test_app ?c)
        (snd (drop_collection (test_app ?c) ''c'' world_c)))
      = Inr \<lparr>resp_collections = []\<rparr>"
    by (simp add: dropped listed)
  ultimately show ?thesis using h by simp
qed

section \<open>Search\<close>


lemma search_guarded_rejected:
  assumes "client (milvus app) = Some c"
    and "client_search c (store w) name [v] limit (output_fields_or_default ofs) ''COSINE''
         = Inl e"
  shows "search_guarded app name v limit ofs w =
           (Inl (case e of ValueError msg \<Rightarrow> HTTPException 404 msg | _ \<Rightarrow> e),
            w\<lparr>calls := calls w
               @ [SearchCall name [v] limit (output_fields_or_default ofs) ''COSINE'']\<rparr>)"
  using assms
  by (cases e) (simp_all add: search_guarded_def MilvusManager_search_def log_call_def)

lemma search_encodes_query:
  assumes "model_attr (model app) = Some st"
  shows "search app name req w =
           search_guarded app name (st_encode st (query req)) (search_limit req)
             (search_output_fields req) (w\<lparr>calls := calls w @ [EncodeCall (query req)]\<rparr>)"
  using assms by (simp add: search_def encode_def log_call_def)

text \<open>
  The translation both search handlers attempt: when \<^verbatim>\<open>client.search\<close> raises
  \<^verbatim>\<open>ValueError\<close>, search by text (the model loaded) and search by vector end in
  \<^verbatim>\<open>HTTPException(404)\<close> carrying the error's message.
\<close>

lemma search_value_error_is_not_found:
  assumes "client (milvus app) = Some c"
    and "model_attr (model app) = Some st"
  shows "(client_search c (store w) name [st_encode st (query req)] (search_limit req)
            (output_fields_or_default (search_output_fields req)) ''COSINE''
          = Inl (ValueError msg)
          \<longrightarrow> fst (search app name req w) = Inl (HTTPException 404 msg))
       \<and> (client_search c (store w) name [query_vector vreq] (vector_limit vreq)
            (output_fields_or_default (vector_output_fields vreq)) ''COSINE''
          = Inl (ValueError msg)
          \<longrightarrow> fst (search_by_vector app name vreq w) = Inl (HTTPException 404 msg))"
proof (intro conjI impI)
  assume rejected: "client_search c (store w) name [st_encode st (query req)]
      (search_limit req) (output_fields_or_default (search_output_fields req)) ''COSINE''
    = Inl (ValueError msg)"
  let ?w = "w\<lparr>calls := calls w @ [EncodeCall (query req)]\<rparr>"
  from rejected have "client_search c (store ?w) name [st_encode st (query req)]
      (search_limit req) (output_fields_or_default (search_output_fields req)) ''COSINE''
    = Inl (ValueError msg)"
    by simp
  from search_guarded_rejected [OF assms(1) this]
  show "fst (search app name req w) = Inl (HTTPException 404 msg)"
    by (simp add: search_encodes_query [OF assms(2)])
next
  assume "client_search c (store w) name [query_vector vreq] (vector_limit vreq)
      (output_fields_or_default (vector_output_fields vreq)) ''COSINE''
    = Inl (ValueError msg)"
  from search_guarded_rejected [OF assms(1) this]
  show "fst (search_by_vector app name vreq w) = Inl (HTTPException 404 msg)"
    by (simp add: search_by_vector_def)
qed

text \<open>
  Claim C4. A search against a name that was never created is to end in a not-found
  response (404) whatever exception the backend raises. The handlers catch
  \<^verbatim>\<open>ValueError\<close> only, and \<^verbatim>\<open>MilvusManager.search\<close> raises nothing of its own: on
  a backend that signals the missing collection with its own exception class, as the
  Milvus client does, both searches end in that exception, and no
  \<^verbatim>\<open>HTTPException\<close> is raised at all.
\<close>

theorem search_missing_collection_not_translated:
  "''missing'' \<notin> set (map fst (store empty_world))
   \<and> fst (search (test_app (memory_client not_found_error)) ''missing'' search_a empty_world)
      = Inl (OtherException ''MilvusException'' ''collection not found'')
   \<and> raised_status
        (fst (search (test_app (memory_client not_found_error)) ''missing'' search_a
           empty_world)) \<noteq> Some 404
   \<and> fst (search_by_vector (test_app (memory_client not_found_error)) ''missing'' search_v2
        empty_world)
      = Inl (OtherException ''MilvusException'' ''collection not found'')
   \<and> raised_status
        (fst (search_by_vector (test_app (memory_client not_found_error)) ''missing''
           search_v2 empty_world)) \<noteq> Some 404"
  by (simp add: search_def search_by_vector_def search_guarded_def MilvusManager_search_def
      encode_def log_call_def test_app_def memory_client_def not_found_error_def
      stub_transformer_def empty_world_def search_a_def search_v2_def raised_status_def
      output_fields_or_default_def)





section \<open>Health\<close>

text \<open>
  Claim C6. The health handler always returns. Its status is \<open>ok\<close> exactly when the
  model attribute holds a transformer and the storage is reachable, and \<open>degraded\<close>
  otherwise; the loaded flag says whether the model attribute holds a transformer,
  whatever the storage does; a failing \<^verbatim>\<open>list_collections\<close> probe only clears the
  connected flag. The probe is the one call made (none when the manager holds no
  client), and the backend state is untouched.
\<close>

theorem health_never_raises_and_is_accurate:
  "(case health app w of
      (Inl e, w') \<Rightarrow> False
    | (Inr resp, w') \<Rightarrow>
        (health_status resp = ''ok'')
          = (model_attr (model app) \<noteq> None \<and> storage_reachable app w)
        \<and> (health_status resp = ''ok'' \<or> health_status resp = ''degraded'')
        \<and> health_model_loaded resp = (model_attr (model app) \<noteq> None)
        \<and> health_milvus_connected resp = storage_reachable app w
        \<and> store w' = store w
        \<and> calls w' =
            (if client (milvus app) = None then calls w else calls w @ [ListCollectionsCall]))"
proof (cases "client (milvus app)")
  case None
  then show ?thesis
    by (simp add: health_def is_loaded_def storage_reachable_def Let_def)
next
  case (Some c)
  then show ?thesis
    by (cases "client_list_collections c (store w)")
      (simp_all add: health_def is_loaded_def storage_reachable_def
        MilvusManager_list_collections_def log_call_def Let_def)
qed

theorem health_never_raises_and_is_accurate_witness:
  "health (test_app unreachable_client) empty_world =
     (Inr \<lparr>health_status = ''degraded'', health_model_loaded = True,
           health_model_name = MODEL_NAME, health_model_dimension = DIMENSION,
           health_milvus_connected = False, health_milvus_collections = []\<rparr>,
      \<lparr>store = [], calls = [ListCollectionsCall]\<rparr>)
   \<and> model_attr (model (test_app unreachable_client)) \<noteq> None
   \<and> \<not> storage_reachable (test_app unreachable_client) empty_world
   \<and> health (unloaded_app (memory_client not_found_error)) world_c =
     (Inr \<lparr>health_status = ''degraded'', health_model_loaded = False,
           health_model_name = MODEL_NAME, health_model_dimension = DIMENSION,
           health_milvus_connected = True, health_milvus_collections = [''c'']\<rparr>,
      \<lparr>store = [(''c'', 2, [])], calls = [ListCollectionsCall]\<rparr>)
   \<and> model_attr (model (unloaded_app (memory_client not_found_error))) = None
   \<and> storage_reachable (unloaded_app (memory_client not_found_error)) world_c"
proof -
  have run1: "health (test_app unreachable_client) empty_world =
     (Inr \<lparr>health_status = ''degraded'', health_model_loaded = True,
           health_model_name = MODEL_NAME, health_model_dimension = DIMENSION,
           health_milvus_connected = False, health_milvus_collections = []\<rparr>,
      \<lparr>store = [], calls = [ListCollectionsCall]\<rparr>)"
    by (simp add: health_def is_loaded_def MilvusManager_list_collections_def log_call_def
        test_app_def unreachable_client_def memory_client_def empty_world_def Let_def)
  have run2: "health (unloaded_app (memory_client not_found_error)) world_c =
     (Inr \<lparr>health_status = ''degraded'', health_model_loaded = False,
           health_model_name = MODEL_NAME, health_model_dimension = DIMENSION,
           health_milvus_connected = True, health_milvus_collections = [''c'']\<rparr>,
      \<lparr>store = [(''c'', 2, [])], calls = [ListCollectionsCall]\<rparr>)"
    by (simp add: health_def is_loaded_def MilvusManager_list_collections_def log_call_def
        unloaded_app_def memory_client_def world_c_def Let_def)
  show ?thesis
    using health_never_raises_and_is_accurate [of "test_app unreachable_client" empty_world]
      health_never_raises_and_is_accurate
        [of "unloaded_app (memory_client not_found_error)" world_c]
    by (simp add: run1 run2)
qed


section \<open>Empty batches\<close>

text \<open>
  Claim C7, as stated, fails for insertion: the insert handler has no check for an
  empty item list. An insert request without items reaches the storage client as one
  insert call with an empty batch, and the handler answers a count of 0.
\<close>

theorem insert_empty_batch_counterexample:
  "items \<lparr>items = [], auto_embed = True\<rparr> = []
   \<and> insert_endpoint (test_app (memory_client not_found_error)) ''c''
        \<lparr>items = [], auto_embed = True\<rparr> world_c
      = (Inr \<lparr>insert_count = 0\<rparr>, \<lparr>store = [(''c'', 2, [])], calls = [InsertCall ''c'' []]\<rparr>)"
  by (simp add: insert_endpoint_def MilvusManager_insert_def log_call_def test_app_def
      memory_client_def world_c_def)

text \<open>
  Claim C7, amended. A batch embedding request with no texts ends in
  \<^verbatim>\<open>HTTPException(400)\<close> and the world is as before: no call reached the model or
  the storage client.
\<close>

theorem embed_batch_empty_rejected:
  assumes "texts req = []"
  shows "embed_batch app req w = (Inl (HTTPException 400 detail_empty_texts), w)"
  using assms by (simp add: embed_batch_def)

theorem embed_batch_empty_rejected_witness:
  "texts \<lparr>texts = []\<rparr> = []
   \<and> embed_batch (test_app (memory_client not_found_error)) \<lparr>texts = []\<rparr> world_c
      = (Inl (HTTPException 400 detail_empty_texts), world_c)"
proof -
  have h: "texts \<lparr>texts = []\<rparr> = []" by simp
  show ?thesis
    using embed_batch_empty_rejected [OF h] h by simp
qed

end
